theory Spec2Isabelle
  imports Complex_Main "HOL-Library.AList" "HOL-Library.Char_ord" "HOL-Library.List_Lexorder"
    "HOL-Library.Multiset"
begin

section \<open>Python values\<close>

text \<open>
  The classifier and the aggregator work on the values that \<^verbatim>\<open>json.loads\<close> produces:
  \<^verbatim>\<open>None\<close>, booleans, integers, floats, strings, lists and dictionaries with string keys.
  A dictionary is an association list in insertion order; \<^verbatim>\<open>d[k] = v\<close> overwrites the
  entry in place or appends it, which is what \<open>AList.update\<close> does.

  Floats are modelled by rationals. Only finite floats are covered (no \<^verbatim>\<open>nan\<close>, no
  \<^verbatim>\<open>inf\<close>), and a float that is the nearest double to a two-decimal number stands for
  that number, so that the literals \<^verbatim>\<open>0.95\<close>, \<^verbatim>\<open>0.75\<close>, \<^verbatim>\<open>0.5\<close> and \<^verbatim>\<open>0.4\<close> and the
  results of \<^verbatim>\<open>round(x, 2)\<close> compare as the source compares them.
\<close>

datatype pyval =
    PNone
  | PBool bool
  | PInt int
  | PFloat rat
  | PStr string
  | PList "pyval list"
  | PDict "(string \<times> pyval) list"

type_synonym pydict = "(string \<times> pyval) list"

text \<open>Exceptions, each with the text that \<^verbatim>\<open>str(e)\<close> gives.\<close>

datatype pyerr =
    TypeError string
  | ValueError string
  | OverflowError string
  | AttributeError string
  | InvokeError string

fun exc_text :: "pyerr \<Rightarrow> string" where
  "exc_text (TypeError m) = m"
| "exc_text (ValueError m) = m"
| "exc_text (OverflowError m) = m"
| "exc_text (AttributeError m) = m"
| "exc_text (InvokeError m) = m"

fun type_name :: "pyval \<Rightarrow> string" where
  "type_name PNone = ''NoneType''"
| "type_name (PBool b) = ''bool''"
| "type_name (PInt n) = ''int''"
| "type_name (PFloat x) = ''float''"
| "type_name (PStr s) = ''str''"
| "type_name (PList xs) = ''list''"
| "type_name (PDict d) = ''dict''"

definition quoted :: "string \<Rightarrow> string" where
  "quoted s = CHR 0x27 # s @ [CHR 0x27]"

text \<open>\<^verbatim>\<open>d.get(k, default)\<close>; \<^verbatim>\<open>d.get(k)\<close> is \<open>dget d k PNone\<close>.\<close>

definition dget :: "pydict \<Rightarrow> string \<Rightarrow> pyval \<Rightarrow> pyval" where
  "dget d k dflt = (case map_of d k of None \<Rightarrow> dflt | Some v \<Rightarrow> v)"

text \<open>\<^verbatim>\<open>d[k] = v\<close>.\<close>

definition py_set :: "string \<Rightarrow> pyval \<Rightarrow> pydict \<Rightarrow> pydict" where
  "py_set k v d = AList.update k v d"

text \<open>Truthiness, as \<^verbatim>\<open>or\<close> and \<^verbatim>\<open>if\<close> read a value.\<close>

fun truthy :: "pyval \<Rightarrow> bool" where
  "truthy PNone = False"
| "truthy (PBool b) = b"
| "truthy (PInt n) = (n \<noteq> 0)"
| "truthy (PFloat x) = (x \<noteq> 0)"
| "truthy (PStr s) = (s \<noteq> [])"
| "truthy (PList xs) = (xs \<noteq> [])"
| "truthy (PDict d) = (d \<noteq> [])"

definition py_or :: "pyval \<Rightarrow> pyval \<Rightarrow> pyval" where
  "py_or a b = (if truthy a then a else b)"

fun is_list :: "pyval \<Rightarrow> bool" where
  "is_list (PList xs) = True"
| "is_list v = False"

fun is_dict :: "pyval \<Rightarrow> bool" where
  "is_dict (PDict d) = True"
| "is_dict v = False"

text \<open>\<^verbatim>\<open>isinstance(v, (int, float))\<close>: \<^verbatim>\<open>bool\<close> is a subclass of \<^verbatim>\<open>int\<close>.\<close>

fun is_number :: "pyval \<Rightarrow> bool" where
  "is_number (PBool b) = True"
| "is_number (PInt n) = True"
| "is_number (PFloat x) = True"
| "is_number v = False"

text \<open>Lists and dictionaries cannot be hashed: putting one into a set, or testing it for
  membership in a set, raises \<^verbatim>\<open>TypeError\<close>.\<close>

fun hashable :: "pyval \<Rightarrow> bool" where
  "hashable (PList xs) = False"
| "hashable (PDict d) = False"
| "hashable v = True"

definition unhashable_error :: "pyval \<Rightarrow> pyerr" where
  "unhashable_error v = TypeError (''unhashable type: '' @ quoted (type_name v))"

section \<open>Library functions\<close>

text \<open>
  \<^verbatim>\<open>round(x, 2)\<close>: the nearest multiple of 0.01, a tie going to the even one.
\<close>

definition py_round2 :: "rat \<Rightarrow> rat" where
  "py_round2 x =
     (let y = x * 100; k = \<lfloor>y\<rfloor>; d = y - of_int k
      in of_int (if d < 1 / 2 then k else if 1 / 2 < d then k + 1
                 else if even k then k else k + 1) / 100)"

text \<open>\<^verbatim>\<open>round(max(0.0, min(0.95, x)), 2)\<close>.\<close>

definition clamp_round :: "rat \<Rightarrow> rat" where
  "clamp_round x = py_round2 (max 0 (min (95 / 100) x))"

text \<open>
  \<^verbatim>\<open>float(n)\<close> of an integer raises \<^verbatim>\<open>OverflowError\<close> once \<open>n\<close> rounds to a magnitude
  beyond the largest double, \<open>2 ^ 1024 - 2 ^ 971\<close>; below that the model keeps the value
  unrounded.
\<close>

definition float_of_int :: "int \<Rightarrow> pyerr + rat" where
  "float_of_int n =
     (if \<bar>n\<bar> < 2 ^ 1024 - 2 ^ 970 then Inr (of_int n)
      else Inl (OverflowError ''int too large to convert to float''))"

text \<open>
  \<^verbatim>\<open>float(v)\<close>. Reading a float from a string is the library's work: \<open>fs\<close> gives the
  value, or \<open>None\<close> where \<^verbatim>\<open>float\<close> raises \<^verbatim>\<open>ValueError\<close>.
\<close>

fun py_float :: "(string \<Rightarrow> rat option) \<Rightarrow> pyval \<Rightarrow> pyerr + rat" where
  "py_float fs (PFloat x) = Inr x"
| "py_float fs (PInt n) = float_of_int n"
| "py_float fs (PBool b) = Inr (if b then 1 else 0)"
| "py_float fs (PStr s) =
     (case fs s of
        Some x \<Rightarrow> Inr x
      | None \<Rightarrow> Inl (ValueError (''could not convert string to float: '' @ quoted s)))"
| "py_float fs v =
     Inl (TypeError (''float() argument must be a string or a real number, not ''
                     @ quoted (type_name v)))"

text \<open>
  \<^verbatim>\<open>re.search(r"\{.*\}", s, flags=re.DOTALL)\<close>: the match starts at the first
  \<^verbatim>\<open>{\<close> and, the star being greedy and the dot matching newlines, ends at the last
  \<^verbatim>\<open>}\<close> after it.
\<close>

definition re_search_braces :: "string \<Rightarrow> string option" where
  "re_search_braces s =
     (let t = dropWhile (\<lambda>c. c \<noteq> CHR ''{'') s;
          m = rev (dropWhile (\<lambda>c. c \<noteq> CHR ''}'') (rev t))
      in if m = [] then None else Some m)"

text \<open>\<^verbatim>\<open>str(n)\<close> of a length.\<close>

fun str_of_nat :: "nat \<Rightarrow> string" where
  "str_of_nat n =
     (if n < 10 then [char_of (48 + n)]
      else str_of_nat (n div 10) @ [char_of (48 + n mod 10)])"

section \<open>classifier.py\<close>

subsection \<open>safe_parse_model_output\<close>

text \<open>The dictionaries the source returns when it gives up: they differ in
  \<^verbatim>\<open>evidence_summary\<close> and \<^verbatim>\<open>notes\<close> only.\<close>

definition unclear_record :: "string \<Rightarrow> string \<Rightarrow> pydict" where
  "unclear_record evidence note =
     [(''mnpi'', PStr ''unclear''),
      (''categories'', PList [PStr ''None'']),
      (''confidence'', PFloat 0),
      (''evidence_summary'', PStr evidence),
      (''risk_level'', PStr ''low''),
      (''recommended_action'', PStr ''human_review''),
      (''notes'', PStr note)]"

definition no_json_record :: pydict where
  "no_json_record = unclear_record ''No valid JSON returned'' ''Model did not return JSON''"

definition malformed_record :: pydict where
  "malformed_record = unclear_record ''Malformed JSON'' ''JSON parse error''"

definition allowed :: "string list" where
  "allowed =
     [''Unreleased Earnings/Guidance'', ''M&A/Transactions'', ''Executive Changes'',
      ''Product Launch/Strategic Plans'', ''Legal/Regulatory Investigations'',
      ''Insider Trading Risk'', ''Confidential Financial Projections'', ''None'']"

text \<open>\<^verbatim>\<open>data["confidence"]\<close> once line 91 has stored a float there.\<close>

definition conf_of :: "pydict \<Rightarrow> rat" where
  "conf_of d = (case dget d ''confidence'' PNone of PFloat x \<Rightarrow> x | _ \<Rightarrow> 0)"

text \<open>Lines 77-78.\<close>

definition step_mnpi :: "pydict \<Rightarrow> pydict" where
  "step_mnpi data =
     (if dget data ''mnpi'' PNone \<notin> {PStr ''yes'', PStr ''no'', PStr ''unclear''}
      then py_set ''mnpi'' (PStr ''unclear'') data else data)"

text \<open>Lines 80-81.\<close>

definition step_categories_type :: "pydict \<Rightarrow> pydict" where
  "step_categories_type data =
     (if \<not> is_list (dget data ''categories'' PNone)
      then py_set ''categories'' (PList [PStr ''None'']) data else data)"

text \<open>Lines 83-88: a confidence that is not a number is read with \<^verbatim>\<open>float\<close>, and any
  exception of that gives 0.0.\<close>

definition step_confidence_type :: "(string \<Rightarrow> rat option) \<Rightarrow> pydict \<Rightarrow> pydict" where
  "step_confidence_type fs data =
     (if \<not> is_number (dget data ''confidence'' PNone)
      then py_set ''confidence''
             (PFloat (case py_float fs (dget data ''confidence'' (PFloat 0)) of
                        Inr x \<Rightarrow> x | Inl e \<Rightarrow> 0)) data
      else data)"

text \<open>Line 91, outside any \<^verbatim>\<open>try\<close>: \<^verbatim>\<open>float\<close> of a huge integer raises here.\<close>

definition step_clamp :: "(string \<Rightarrow> rat option) \<Rightarrow> pydict \<Rightarrow> pyerr + pydict" where
  "step_clamp fs data =
     (case py_float fs (dget data ''confidence'' PNone) of
        Inl e \<Rightarrow> Inl e
      | Inr x \<Rightarrow> Inr (py_set ''confidence'' (PFloat (clamp_round x)) data))"

text \<open>Lines 94-96.\<close>

definition step_override :: "pydict \<Rightarrow> pydict" where
  "step_override data =
     (if dget data ''mnpi'' PNone = PStr ''yes'' \<and> conf_of data < 5 / 10
      then py_set ''recommended_action'' (PStr ''human_review'')
             (py_set ''mnpi'' (PStr ''unclear'') data)
      else data)"

text \<open>Lines 99-104: \<^verbatim>\<open>c in allowed\<close> hashes \<open>c\<close>, so the comprehension raises at the
  first list or dictionary among the categories.\<close>

fun filter_allowed :: "pyval list \<Rightarrow> pyerr + pyval list" where
  "filter_allowed [] = Inr []"
| "filter_allowed (c # cs) =
     (if \<not> hashable c then Inl (unhashable_error c)
      else case filter_allowed cs of
             Inl e \<Rightarrow> Inl e
           | Inr r \<Rightarrow> Inr (if c \<in> PStr ` set allowed then c # r else r))"

definition step_categories_filter :: "pydict \<Rightarrow> pyerr + pydict" where
  "step_categories_filter data =
     (case filter_allowed (case dget data ''categories'' PNone of PList cs \<Rightarrow> cs | _ \<Rightarrow> []) of
        Inl e \<Rightarrow> Inl e
      | Inr cs \<Rightarrow>
          Inr (py_set ''categories'' (PList (if cs = [] then [PStr ''None''] else cs)) data))"

text \<open>Lines 107-114.\<close>

definition step_risk_level :: "pydict \<Rightarrow> pydict" where
  "step_risk_level data =
     (if dget data ''risk_level'' PNone \<notin> {PStr ''low'', PStr ''medium'', PStr ''high''}
      then py_set ''risk_level''
             (PStr (if 75 / 100 \<le> conf_of data then ''high''
                    else if 5 / 10 \<le> conf_of data then ''medium'' else ''low'')) data
      else data)"

text \<open>Lines 117-123.\<close>

definition step_recommended_action :: "pydict \<Rightarrow> pydict" where
  "step_recommended_action data =
     (if dget data ''recommended_action'' PNone
           \<notin> {PStr ''escalate'', PStr ''human_review'', PStr ''no_action''}
      then py_set ''recommended_action''
             (PStr (if dget data ''risk_level'' PNone = PStr ''high'' then ''escalate''
                    else if dget data ''mnpi'' PNone = PStr ''unclear''
                            \<or> dget data ''risk_level'' PNone = PStr ''medium''
                         then ''human_review'' else ''no_action'')) data
      else data)"

text \<open>Lines 76-125: the validation of the decoded dictionary, step by step.\<close>

definition normalize_fields :: "(string \<Rightarrow> rat option) \<Rightarrow> pydict \<Rightarrow> pyerr + pydict" where
  "normalize_fields fs data =
     (case step_clamp fs (step_confidence_type fs (step_categories_type (step_mnpi data))) of
        Inl e \<Rightarrow> Inl e
      | Inr d \<Rightarrow>
          (case step_categories_filter (step_override d) of
             Inl e \<Rightarrow> Inl e
           | Inr d' \<Rightarrow> Inr (step_recommended_action (step_risk_level d'))))"

text \<open>
  \<^verbatim>\<open>json.loads\<close> is the library's: \<open>jl\<close> gives the decoded value, or \<open>None\<close> where it
  raises. Python's decoder turns a text that starts with a brace into a dictionary or
  fails; for a decoder that returned something else, \<^verbatim>\<open>data.get\<close> would raise
  \<^verbatim>\<open>AttributeError\<close>.
\<close>

definition safe_parse_model_output ::
  "(string \<Rightarrow> pyval option) \<Rightarrow> (string \<Rightarrow> rat option) \<Rightarrow> string \<Rightarrow> pyerr + pydict" where
  "safe_parse_model_output jl fs response_text =
     (case re_search_braces response_text of
        None \<Rightarrow> Inr no_json_record
      | Some m \<Rightarrow>
          (case jl m of
             None \<Rightarrow> Inr malformed_record
           | Some (PDict data) \<Rightarrow> normalize_fields fs data
           | Some v \<Rightarrow>
               Inl (AttributeError (quoted (type_name v) @ '' object has no attribute ''
                                    @ quoted ''get''))))"

subsection \<open>classify_chunk\<close>

text \<open>
  The model invoker \<^verbatim>\<open>llm.invoke\<close> is the outside world: its outcome is given per call,
  by the number of calls made before it and the prompt. A call returns a string or
  raises, with the text of the exception. The prompt is kept by its kind and the chunk
  it embeds; the template's words play no part in the control flow.
  \<^verbatim>\<open>time.sleep(retry_delay)\<close> changes no value and is left out.
\<close>

datatype prompt = ClassifyPrompt string | VerifierPrompt string

datatype reply = Returns string | Raises string

type_synonym invoker = "nat \<Rightarrow> prompt \<Rightarrow> reply"

text \<open>How the attempt loop ends: a \<^verbatim>\<open>return\<close> from inside it, or falling out of it (by
  \<^verbatim>\<open>break\<close> or because the range is used up) with \<^verbatim>\<open>last_response_text\<close>.\<close>

datatype loop_exit = Returned pydict | FellThrough string

text \<open>Lines 159-167.\<close>

definition llm_error_record :: "pyerr \<Rightarrow> pydict" where
  "llm_error_record e =
     unclear_record ''LLM error'' (''LLM error after retries: '' @ exc_text e)"

text \<open>The body of the \<^verbatim>\<open>try\<close> up to the parse (lines 139-141): the invocation and the
  parse both raise into the same handler.\<close>

definition invoke_and_parse ::
  "(string \<Rightarrow> pyval option) \<Rightarrow> (string \<Rightarrow> rat option) \<Rightarrow> invoker \<Rightarrow> nat \<Rightarrow> prompt
     \<Rightarrow> pyerr + (string \<times> pydict)" where
  "invoke_and_parse jl fs llm n p =
     (case llm n p of
        Raises m \<Rightarrow> Inl (InvokeError m)
      | Returns response_text \<Rightarrow>
          (case safe_parse_model_output jl fs response_text of
             Inl e \<Rightarrow> Inl e
           | Inr parsed \<Rightarrow> Inr (response_text, parsed)))"

text \<open>Lines 136-167: the loop over \<^verbatim>\<open>range(1, max_retries + 1)\<close>, with the text of the
  last response and the number of invocations made so far.\<close>

fun attempt_loop ::
  "(string \<Rightarrow> pyval option) \<Rightarrow> (string \<Rightarrow> rat option) \<Rightarrow> invoker \<Rightarrow> string \<Rightarrow> int
     \<Rightarrow> string \<Rightarrow> nat \<Rightarrow> int list \<Rightarrow> loop_exit \<times> nat" where
  "attempt_loop jl fs llm chunk max_retries last_response_text n [] =
     (FellThrough last_response_text, n)"
| "attempt_loop jl fs llm chunk max_retries last_response_text n (attempt # rest) =
     (case invoke_and_parse jl fs llm n (ClassifyPrompt chunk) of
        Inr (response_text, parsed) \<Rightarrow>
          if 75 / 100 \<le> conf_of parsed \<or> dget parsed ''mnpi'' PNone = PStr ''no''
          then (Returned parsed, Suc n)
          else if attempt < max_retries
          then attempt_loop jl fs llm chunk max_retries response_text (Suc n) rest
          else (FellThrough response_text, Suc n)
      | Inl e \<Rightarrow>
          if attempt < max_retries
          then attempt_loop jl fs llm chunk max_retries (''ERROR: '' @ exc_text e) (Suc n) rest
          else (Returned (llm_error_record e), Suc n))"

text \<open>Lines 183-206: the record built from the first pass and the verifier pass.\<close>

definition verifier_merge :: "pydict \<Rightarrow> pydict \<Rightarrow> pydict" where
  "verifier_merge parsed verifier_parsed =
     (let final_conf = min (conf_of parsed) (conf_of verifier_parsed);
          final_mnpi =
            (if dget verifier_parsed ''mnpi'' PNone = PStr ''unclear''
                \<or> dget parsed ''mnpi'' PNone = PStr ''unclear''
             then PStr ''unclear''
             else if dget verifier_parsed ''mnpi'' PNone = PStr ''no''
                     \<and> dget parsed ''mnpi'' PNone = PStr ''yes''
             then PStr ''unclear''
             else dget parsed ''mnpi'' PNone);
          final_categories =
            (if truthy (dget verifier_parsed ''categories'' PNone)
             then dget verifier_parsed ''categories'' PNone
             else dget parsed ''categories'' PNone);
          final =
            [(''mnpi'', final_mnpi),
             (''categories'', final_categories),
             (''confidence'', PFloat (clamp_round final_conf)),
             (''evidence_summary'',
                py_or (dget verifier_parsed ''evidence_summary'' PNone)
                      (dget parsed ''evidence_summary'' PNone)),
             (''risk_level'',
                py_or (dget verifier_parsed ''risk_level'' PNone)
                      (dget parsed ''risk_level'' PNone)),
             (''recommended_action'',
                py_or (dget verifier_parsed ''recommended_action'' PNone)
                      (dget parsed ''recommended_action'' PNone)),
             (''notes'',
                py_or (dget verifier_parsed ''notes'' PNone) (dget parsed ''notes'' PNone))]
      in if dget final ''mnpi'' PNone = PStr ''yes'' \<and> conf_of final < 5 / 10
         then py_set ''recommended_action'' (PStr ''human_review'')
                (py_set ''mnpi'' (PStr ''unclear'') final)
         else final)"

text \<open>
  Lines 207-211, the handler of a failed verifier pass. The concatenation
  \<^verbatim>\<open>(parsed.get("notes") or "") + " | verifier failed"\<close> needs a string on the left:
  a truthy \<^verbatim>\<open>notes\<close> of another type raises \<^verbatim>\<open>TypeError\<close>, and an exception raised
  inside a handler leaves the function.
\<close>

definition verifier_failed :: "pydict \<Rightarrow> pyerr + pydict" where
  "verifier_failed parsed =
     (let parsed' = py_set ''recommended_action'' (PStr ''human_review'') parsed
      in case py_or (dget parsed' ''notes'' PNone) (PStr []) of
           PStr s \<Rightarrow> Inr (py_set ''notes'' (PStr (s @ '' | verifier failed'')) parsed')
         | PList xs \<Rightarrow>
             Inl (TypeError (''can only concatenate list (not '' @ [CHR 0x22] @ ''str''
                             @ [CHR 0x22] @ '') to list''))
         | v \<Rightarrow>
             Inl (TypeError (''unsupported operand type(s) for +: '' @ quoted (type_name v)
                             @ '' and '' @ quoted ''str'')))"

text \<open>Lines 128-214. The result is the returned record or the exception that leaves the
  function, and the number of model invocations made.\<close>

definition classify_chunk ::
  "(string \<Rightarrow> pyval option) \<Rightarrow> (string \<Rightarrow> rat option) \<Rightarrow> invoker \<Rightarrow> string \<Rightarrow> int
     \<Rightarrow> (pyerr + pydict) \<times> nat" where
  "classify_chunk jl fs llm chunk max_retries =
     (case attempt_loop jl fs llm chunk max_retries [] 0 [1..max_retries] of
        (Returned r, n) \<Rightarrow> (Inr r, n)
      | (FellThrough last_response_text, n) \<Rightarrow>
          (case safe_parse_model_output jl fs last_response_text of
             Inl e \<Rightarrow> (Inl e, n)
           | Inr parsed \<Rightarrow>
               if 4 / 10 \<le> conf_of parsed \<and> conf_of parsed < 75 / 100
               then (case invoke_and_parse jl fs llm n (VerifierPrompt chunk) of
                       Inr (verifier_text, verifier_parsed) \<Rightarrow>
                         (Inr (verifier_merge parsed verifier_parsed), Suc n)
                     | Inl e \<Rightarrow> (verifier_failed parsed, Suc n))
               else (Inr parsed, n)))"

section \<open>analyzer.py\<close>

text \<open>Lines 7-52, on the values of this model (none of them has a \<^verbatim>\<open>content\<close> attribute
  or is a byte string).\<close>

definition normalization_fallback :: pydict where
  "normalization_fallback =
     unclear_record ''Could not parse model output'' ''Normalization fallback used''"

definition normalize_classify_output :: "(string \<Rightarrow> pyval option) \<Rightarrow> pyval \<Rightarrow> pyval" where
  "normalize_classify_output jl result =
     (case result of
        PDict d \<Rightarrow> PDict d
      | PStr raw \<Rightarrow>
          (case jl raw of
             Some v \<Rightarrow> v
           | None \<Rightarrow>
               (case re_search_braces raw of
                  None \<Rightarrow> PDict normalization_fallback
                | Some m \<Rightarrow>
                    (case jl m of
                       Some v \<Rightarrow> v
                     | None \<Rightarrow> PDict normalization_fallback)))
      | _ \<Rightarrow> PDict normalization_fallback)"

section \<open>aggregator.py\<close>

text \<open>An entry of \<^verbatim>\<open>normalized\<close> (lines 18-24).\<close>

record entry =
  e_mnpi :: pyval
  e_categories :: "pyval list"
  e_confidence :: rat
  e_evidence_summary :: pyval
  e_recommended_action :: pyval

text \<open>The dictionary \<^verbatim>\<open>aggregate_results\<close> returns.\<close>

record summary =
  overall_mnpi :: string
  categories :: "pyval list"
  overall_confidence :: rat
  reason :: string
  recommended_action :: string

text \<open>Line 19: \<^verbatim>\<open>r.get("mnpi", "unclear")\<close>.\<close>

definition entry_mnpi :: "pydict \<Rightarrow> pyval" where
  "entry_mnpi r = dget r ''mnpi'' (PStr ''unclear'')"

text \<open>Line 20: the categories if they are a list, else \<^verbatim>\<open>["None"]\<close>.\<close>

definition entry_categories :: "pydict \<Rightarrow> pyval list" where
  "entry_categories r =
     (case dget r ''categories'' PNone of PList cs \<Rightarrow> cs | _ \<Rightarrow> [PStr ''None''])"

text \<open>Line 21: \<^verbatim>\<open>float\<close> of the confidence unless it is missing or \<^verbatim>\<open>None\<close>; the
  conversion is not guarded.\<close>

definition entry_confidence :: "(string \<Rightarrow> rat option) \<Rightarrow> pydict \<Rightarrow> pyerr + rat" where
  "entry_confidence fs r =
     (if dget r ''confidence'' PNone \<noteq> PNone
      then py_float fs (dget r ''confidence'' (PFloat 0)) else Inr 0)"

text \<open>Lines 18-24: the dictionary appended to \<^verbatim>\<open>normalized\<close>, given the converted
  confidence.\<close>

definition make_entry :: "pydict \<Rightarrow> rat \<Rightarrow> entry" where
  "make_entry r c =
     \<lparr> e_mnpi = entry_mnpi r,
       e_categories = entry_categories r,
       e_confidence = c,
       e_evidence_summary = dget r ''evidence_summary'' (PStr []),
       e_recommended_action = dget r ''recommended_action'' (PStr ''human_review'') \<rparr>"

definition normalize_entry :: "(string \<Rightarrow> rat option) \<Rightarrow> pydict \<Rightarrow> pyerr + entry" where
  "normalize_entry fs r =
     (case entry_confidence fs r of
        Inl e \<Rightarrow> Inl e
      | Inr c \<Rightarrow> Inr (make_entry r c))"

text \<open>Lines 14-24: entries that are not dictionaries are skipped.\<close>

fun normalize_all :: "(string \<Rightarrow> rat option) \<Rightarrow> pyval list \<Rightarrow> pyerr + entry list" where
  "normalize_all fs [] = Inr []"
| "normalize_all fs (PDict r # rs) =
     (case normalize_entry fs r of
        Inl e \<Rightarrow> Inl e
      | Inr x \<Rightarrow>
          (case normalize_all fs rs of
             Inl e \<Rightarrow> Inl e
           | Inr xs \<Rightarrow> Inr (x # xs)))"
| "normalize_all fs (v # rs) = normalize_all fs rs"




fun is_str :: "pyval \<Rightarrow> bool" where
  "is_str (PStr s) = True"
| "is_str v = False"




section \<open>Predicates and examples used in the statements\<close>

text \<open>The mapping entries of the input, in order: the ones \<^verbatim>\<open>aggregate_results\<close> does not
  skip.\<close>

fun un_dict :: "pyval \<Rightarrow> pydict" where
  "un_dict (PDict d) = d"
| "un_dict v = []"

definition dicts_of :: "pyval list \<Rightarrow> pydict list" where
  "dicts_of rs = map un_dict (filter is_dict rs)"


text \<open>The five fields that \<^verbatim>\<open>safe_parse_model_output\<close> validates, each within its domain.\<close>

definition validated_fields :: "pydict \<Rightarrow> bool" where
  "validated_fields r =
     (dget r ''mnpi'' PNone \<in> {PStr ''yes'', PStr ''no'', PStr ''unclear''}
      \<and> (case dget r ''categories'' PNone of
            PList cs \<Rightarrow> cs \<noteq> [] \<and> list_all (\<lambda>c. c \<in> PStr ` set allowed) cs
          | _ \<Rightarrow> False)
      \<and> (case dget r ''confidence'' PNone of
            PFloat c \<Rightarrow> 0 \<le> c \<and> c \<le> 95 / 100 \<and> py_round2 c = c
          | _ \<Rightarrow> False)
      \<and> dget r ''risk_level'' PNone \<in> {PStr ''low'', PStr ''medium'', PStr ''high''}
      \<and> dget r ''recommended_action'' PNone
            \<in> {PStr ''escalate'', PStr ''human_review'', PStr ''no_action''})"

text \<open>What \<^verbatim>\<open>json.loads\<close> returns on the response texts of the examples below; the
  examples use it on no other text.\<close>

definition example_loads :: "string \<Rightarrow> pyval option" where
  \<open>example_loads =
     map_of
       [(''{}'', PDict []),
        (''{"mnpi": "yes", "confidence": 0.6}'',
           PDict [(''mnpi'', PStr ''yes''), (''confidence'', PFloat (6 / 10))]),
        (''{"mnpi": "unclear", "confidence": 0.5}'',
           PDict [(''mnpi'', PStr ''unclear''), (''confidence'', PFloat (5 / 10))]),
        (''{"mnpi": "yes", "confidence": 0.6, "notes": 5}'',
           PDict [(''mnpi'', PStr ''yes''), (''confidence'', PFloat (6 / 10)), (''notes'', PInt 5)]),
        (''{"categories": [["M&A/Transactions"]]}'',
           PDict [(''categories'', PList [PList [PStr ''M&A/Transactions'']])])]\<close>

section \<open>Properties\<close>

subsection \<open>Dictionaries and the brace search\<close>

lemma dget_py_set: "dget (py_set k v d) k' x = (if k' = k then v else dget d k' x)"
  by (simp add: dget_def py_set_def update_conv')

lemma re_search_braces_Some:
  assumes "CHR ''{'' \<notin> set pre" "CHR ''}'' \<notin> set post"
  shows "re_search_braces (pre @ CHR ''{'' # mid @ CHR ''}'' # post) = Some (CHR ''{'' # mid @ ''}'')"
proof -
  have a: "dropWhile (\<lambda>c. c \<noteq> CHR ''{'') (pre @ CHR ''{'' # mid @ CHR ''}'' # post) = CHR ''{'' # mid @ CHR ''}'' # post"
    using assms(1) by (auto simp: dropWhile_append3)
  have b: "dropWhile (\<lambda>c. c \<noteq> CHR ''}'') (rev (CHR ''{'' # mid @ CHR ''}'' # post)) = CHR ''}'' # rev mid @ ''{''"
    using assms(2) by (auto simp: dropWhile_append3)
  show ?thesis unfolding re_search_braces_def Let_def a b by simp
qed

lemma re_search_braces_SomeD:
  assumes "re_search_braces s = Some m"
  shows "\<exists>pre mid post. s = pre @ CHR ''{'' # mid @ CHR ''}'' # post \<and> CHR ''{'' \<notin> set pre \<and> CHR ''}'' \<notin> set post \<and> m = CHR ''{'' # mid @ ''}''"
proof -
  define pre where "pre = takeWhile (\<lambda>c. c \<noteq> CHR ''{'') s"
  define t where "t = dropWhile (\<lambda>c. c \<noteq> CHR ''{'') s"
  define post where "post = rev (takeWhile (\<lambda>c. c \<noteq> CHR ''}'') (rev t))"
  define dr where "dr = dropWhile (\<lambda>c. c \<noteq> CHR ''}'') (rev t)"
  have m: "m = rev dr" and ne: "dr \<noteq> []"
    using assms by (auto simp: re_search_braces_def Let_def t_def dr_def split: if_splits)
  have s: "s = pre @ t" by (simp add: pre_def t_def)
  have "rev t = rev post @ dr" by (simp add: post_def dr_def)
  then have t: "t = m @ post" using m by (metis rev_append rev_rev_ident)
  have pre: "CHR ''{'' \<notin> set pre" unfolding pre_def by (auto dest: set_takeWhileD)
  have post: "CHR ''}'' \<notin> set post" unfolding post_def by (auto dest: set_takeWhileD)
  have "hd dr = CHR ''}''" using ne hd_dropWhile[of "\<lambda>c. c \<noteq> CHR ''}''" "rev t"] by (simp add: dr_def)
  then have lastm: "last m = CHR ''}''" using ne m by (simp add: last_rev)
  have tne: "t \<noteq> []" using t ne m by simp
  then have "hd t = CHR ''{''" using hd_dropWhile[of "\<lambda>c. c \<noteq> CHR ''{''" s] by (simp add: t_def)
  then have hdm: "hd m = CHR ''{''" using t ne m by simp
  have mne: "m \<noteq> []" using ne m by simp
  obtain m' where m': "m = CHR ''{'' # m'" using hdm mne by (cases m) auto
  have "m' \<noteq> []" using lastm m' by auto
  then obtain mid where mid: "m' = mid @ ''}''" using lastm m' by (metis append_butlast_last_id last_ConsR)
  show ?thesis
    using s t m' mid pre post by auto
qed

lemma re_search_braces_None:
  assumes "\<not> (\<exists>pre mid post. s = pre @ CHR ''{'' # mid @ CHR ''}'' # post)"
  shows "re_search_braces s = None"
proof (cases "re_search_braces s")
  case None then show ?thesis .
next
  case (Some m)
  from re_search_braces_SomeD[OF this] assms show ?thesis by blast
qed

subsection \<open>Extraction and fallback\<close>

text \<open>
  Claim C8. \<^verbatim>\<open>safe_parse_model_output\<close> takes the part of the response from its first
  opening brace to the last closing brace after it and hands it to the decoder. A
  response with no opening brace followed by a closing one gives the fallback record
  whose note is "Model did not return JSON"; a part the decoder rejects gives the
  fallback record whose note is "JSON parse error"; a part that decodes to a dictionary
  goes on to the field validation. Both fallback records hold \<^verbatim>\<open>mnpi\<close> unclear,
  categories \<^verbatim>\<open>["None"]\<close>, confidence 0.0, risk level low and action human_review.
\<close>

theorem safe_parse_extraction:
  "(\<not> (\<exists>pre mid post. s = pre @ CHR ''{'' # mid @ CHR ''}'' # post)
      \<longrightarrow> safe_parse_model_output jl fs s = Inr no_json_record)
   \<and> (\<forall>pre mid post.
         s = pre @ CHR ''{'' # mid @ CHR ''}'' # post
         \<and> CHR ''{'' \<notin> set pre \<and> CHR ''}'' \<notin> set post \<longrightarrow>
         (jl (CHR ''{'' # mid @ ''}'') = None
            \<longrightarrow> safe_parse_model_output jl fs s = Inr malformed_record)
         \<and> (\<forall>data. jl (CHR ''{'' # mid @ ''}'') = Some (PDict data)
            \<longrightarrow> safe_parse_model_output jl fs s = normalize_fields fs data))
   \<and> no_json_record =
        [(''mnpi'', PStr ''unclear''), (''categories'', PList [PStr ''None'']),
         (''confidence'', PFloat 0), (''evidence_summary'', PStr ''No valid JSON returned''),
         (''risk_level'', PStr ''low''), (''recommended_action'', PStr ''human_review''),
         (''notes'', PStr ''Model did not return JSON'')]
   \<and> malformed_record =
        [(''mnpi'', PStr ''unclear''), (''categories'', PList [PStr ''None'']),
         (''confidence'', PFloat 0), (''evidence_summary'', PStr ''Malformed JSON''),
         (''risk_level'', PStr ''low''), (''recommended_action'', PStr ''human_review''),
         (''notes'', PStr ''JSON parse error'')]"
proof (intro conjI impI allI)
  assume "\<not> (\<exists>pre mid post. s = pre @ CHR ''{'' # mid @ CHR ''}'' # post)"
  then show "safe_parse_model_output jl fs s = Inr no_json_record"
    by (simp add: safe_parse_model_output_def re_search_braces_None)
next
  fix pre mid post
  assume a: "s = pre @ CHR ''{'' # mid @ CHR ''}'' # post
         \<and> CHR ''{'' \<notin> set pre \<and> CHR ''}'' \<notin> set post"
    and b: "jl (CHR ''{'' # mid @ ''}'') = None"
  show "safe_parse_model_output jl fs s = Inr malformed_record"
    using a b by (simp add: safe_parse_model_output_def re_search_braces_Some)
next
  fix pre mid post data
  assume a: "s = pre @ CHR ''{'' # mid @ CHR ''}'' # post
         \<and> CHR ''{'' \<notin> set pre \<and> CHR ''}'' \<notin> set post"
    and b: "jl (CHR ''{'' # mid @ ''}'') = Some (PDict data)"
  show "safe_parse_model_output jl fs s = normalize_fields fs data"
    using a b by (simp add: safe_parse_model_output_def re_search_braces_Some)
qed (simp_all add: no_json_record_def malformed_record_def unclear_record_def)

theorem safe_parse_extraction_witness:
  "safe_parse_model_output (\<lambda>t. None) (\<lambda>t. None) ''no json here'' = Inr no_json_record
   \<and> safe_parse_model_output (\<lambda>t. None) (\<lambda>t. None) ''see {broken} ok'' = Inr malformed_record
   \<and> safe_parse_model_output (\<lambda>t. if t = ''{}'' then Some (PDict []) else None) (\<lambda>t. None)
        ''Result: {} done'' = normalize_fields (\<lambda>t. None) []"
proof -
  have n: "\<not> (\<exists>pre mid post. ''no json here'' = pre @ CHR ''{'' # mid @ CHR ''}'' # post)"
  proof
    assume "\<exists>pre mid post. ''no json here'' = pre @ CHR ''{'' # mid @ CHR ''}'' # post"
    then obtain pre mid post where eq: "''no json here'' = pre @ CHR ''{'' # mid @ CHR ''}'' # post"
      by blast
    have "CHR ''{'' \<in> set (pre @ CHR ''{'' # mid @ CHR ''}'' # post)" by simp
    then have "CHR ''{'' \<in> set ''no json here''" unfolding eq[symmetric] .
    then show False by simp
  qed
  have d1: "''see {broken} ok'' = ''see '' @ CHR ''{'' # ''broken'' @ CHR ''}'' # '' ok''
      \<and> CHR ''{'' \<notin> set ''see '' \<and> CHR ''}'' \<notin> set '' ok''" by simp
  have d2: "''Result: {} done'' = ''Result: '' @ CHR ''{'' # [] @ CHR ''}'' # '' done''
      \<and> CHR ''{'' \<notin> set ''Result: '' \<and> CHR ''}'' \<notin> set '' done''" by simp
  note a = safe_parse_extraction [of "''no json here''" "\<lambda>t. None" "\<lambda>t. None", THEN conjunct1, rule_format, OF n]
  note b = safe_parse_extraction [of "''see {broken} ok''" "\<lambda>t. None" "\<lambda>t. None", THEN conjunct2, THEN conjunct1, rule_format, OF d1, THEN conjunct1, rule_format]
  note c = safe_parse_extraction [of "''Result: {} done''" "\<lambda>t. if t = ''{}'' then Some (PDict []) else None" "\<lambda>t. None", THEN conjunct2, THEN conjunct1, rule_format, OF d2, THEN conjunct2, rule_format, of "[]"]
  have b': "safe_parse_model_output (\<lambda>t. None) (\<lambda>t. None) ''see {broken} ok'' = Inr malformed_record"
    by (rule b) simp
  have c': "safe_parse_model_output (\<lambda>t. if t = ''{}'' then Some (PDict []) else None) (\<lambda>t. None)
        ''Result: {} done'' = normalize_fields (\<lambda>t. None) []"
    by (rule c) simp
  show ?thesis using a b' c' by (intro conjI)
qed

subsection \<open>An empty retry budget\<close>

text \<open>
  Claim C10. With \<^verbatim>\<open>max_retries\<close> at most 0 the range of attempts is empty: the model is
  invoked zero times, and \<^verbatim>\<open>classify_chunk\<close> returns what normalizing the empty string
  gives, the fallback record with the note "Model did not return JSON".
\<close>

theorem classify_chunk_zero_budget:
  "max_retries \<le> 0 \<Longrightarrow>
     classify_chunk jl fs llm chunk max_retries = (safe_parse_model_output jl fs [], 0)
     \<and> safe_parse_model_output jl fs [] = Inr no_json_record
     \<and> no_json_record =
        [(''mnpi'', PStr ''unclear''), (''categories'', PList [PStr ''None'']),
         (''confidence'', PFloat 0), (''evidence_summary'', PStr ''No valid JSON returned''),
         (''risk_level'', PStr ''low''), (''recommended_action'', PStr ''human_review''),
         (''notes'', PStr ''Model did not return JSON'')]"
proof -
  assume m: "max_retries \<le> 0"
  have r: "[1..max_retries] = []" using m by simp
  have p: "safe_parse_model_output jl fs [] = Inr no_json_record"
    by (simp add: safe_parse_model_output_def re_search_braces_def)
  have c: "conf_of no_json_record = 0"
    by (simp add: conf_of_def dget_def no_json_record_def unclear_record_def)
  have "classify_chunk jl fs llm chunk max_retries = (Inr no_json_record, 0)"
    unfolding classify_chunk_def r by (simp add: p c)
  then show ?thesis using p
    by (simp add: no_json_record_def unclear_record_def)
qed

theorem classify_chunk_zero_budget_witness:
  "classify_chunk (\<lambda>t. None) (\<lambda>t. None) (\<lambda>n p. Raises ''connection refused'') ''some chunk'' 0
     = (Inr no_json_record, 0)
   \<and> classify_chunk (\<lambda>t. None) (\<lambda>t. None) (\<lambda>n p. Returns ''{}'') ''some chunk'' (- 3)
     = (Inr no_json_record, 0)"
  using classify_chunk_zero_budget [of 0 "\<lambda>t. None" "\<lambda>t. None" "\<lambda>n p. Raises ''connection refused''" "''some chunk''"]
        classify_chunk_zero_budget [of "- 3" "\<lambda>t. None" "\<lambda>t. None" "\<lambda>n p. Returns ''{}''" "''some chunk''"]
  by simp

subsection \<open>Rounding and clamping\<close>

lemma py_round2_of_int: "py_round2 (of_int k / 100) = of_int k / 100"
  by (simp add: py_round2_def)

lemma py_round2_bounds:
  "\<exists>k. py_round2 x = of_int k / 100 \<and> \<lfloor>x * 100\<rfloor> \<le> k \<and> k \<le> \<lceil>x * 100\<rceil>"
proof -
  let ?y = "x * 100"
  let ?k = "\<lfloor>?y\<rfloor>"
  show ?thesis
  proof (cases "?y - of_int ?k < 1 / 2")
    case True
    then have "py_round2 x = of_int ?k / 100" by (simp add: py_round2_def Let_def)
    moreover have "?k \<le> \<lceil>?y\<rceil>" by (simp add: floor_le_ceiling)
    ultimately show ?thesis by blast
  next
    case False
    then have "?y \<noteq> of_int ?k" by auto
    then have c: "\<lceil>?y\<rceil> = ?k + 1"
      by (metis ceiling_altdef of_int_floor_cancel)
    have "py_round2 x = of_int ?k / 100 \<or> py_round2 x = of_int (?k + 1) / 100"
      by (simp add: py_round2_def Let_def)
    then show ?thesis
    proof
      assume "py_round2 x = of_int ?k / 100"
      moreover have "?k \<le> \<lceil>?y\<rceil>" unfolding c by linarith
      ultimately show ?thesis by blast
    next
      assume "py_round2 x = of_int (?k + 1) / 100"
      moreover have "?k \<le> ?k + 1" "?k + 1 \<le> \<lceil>?y\<rceil>" unfolding c by linarith+
      ultimately show ?thesis by blast
    qed
  qed
qed

lemma clamp_round_hundredth:
  "\<exists>k. clamp_round x = of_int k / 100 \<and> 0 \<le> k \<and> k \<le> 95"
proof -
  let ?c = "max 0 (min (95 / 100) x)"
  obtain k where k: "py_round2 ?c = of_int k / 100" "\<lfloor>?c * 100\<rfloor> \<le> k" "k \<le> \<lceil>?c * 100\<rceil>"
    using py_round2_bounds by blast
  have "0 \<le> ?c * 100" by simp
  then have "0 \<le> \<lfloor>?c * 100\<rfloor>" by simp
  then have lo: "0 \<le> k" using k(2) by linarith
  have "?c * 100 \<le> 95" by (simp add: min_def max_def)
  then have "\<lceil>?c * 100\<rceil> \<le> 95" by (simp add: ceiling_le_iff)
  then have hi: "k \<le> 95" using k(3) by linarith
  have "clamp_round x = of_int k / 100" unfolding clamp_round_def by (rule k(1))
  then show ?thesis using lo hi by blast
qed

lemma clamp_round_range: "0 \<le> clamp_round x \<and> clamp_round x \<le> 95 / 100"
proof -
  obtain k where "clamp_round x = of_int k / 100" "0 \<le> k" "k \<le> 95"
    using clamp_round_hundredth by blast
  then show ?thesis by simp
qed

lemma clamp_round_idem: "clamp_round (clamp_round x) = clamp_round x"
proof -
  obtain k where k: "clamp_round x = of_int k / 100" "0 \<le> k" "k \<le> 95"
    using clamp_round_hundredth by blast
  have "max 0 (min (95 / 100) (of_int k / 100 :: rat)) = of_int k / 100"
    using k(2,3) by (simp add: min_def max_def)
  then show ?thesis unfolding k(1) by (simp add: clamp_round_def py_round2_of_int)
qed

lemma py_round2_clamp_round: "py_round2 (clamp_round x) = clamp_round x"
proof -
  obtain k where k: "clamp_round x = of_int k / 100"
    using clamp_round_hundredth by blast
  show ?thesis unfolding k by (rule py_round2_of_int)
qed

lemma clamp_round_min:
  "clamp_round (min (clamp_round x) (clamp_round y)) = min (clamp_round x) (clamp_round y)"
  by (simp add: min_def clamp_round_idem)

subsection \<open>The validation steps\<close>

lemma dget_step_mnpi:
  "dget (step_mnpi d) k x =
     (if k = ''mnpi'' \<and> dget d ''mnpi'' PNone \<notin> {PStr ''yes'', PStr ''no'', PStr ''unclear''}
      then PStr ''unclear'' else dget d k x)"
  by (simp add: step_mnpi_def dget_py_set)

lemma dget_step_categories_type:
  "dget (step_categories_type d) k x =
     (if k = ''categories'' \<and> \<not> is_list (dget d ''categories'' PNone)
      then PList [PStr ''None''] else dget d k x)"
  by (simp add: step_categories_type_def dget_py_set)

lemma dget_step_confidence_type:
  "k \<noteq> ''confidence'' \<Longrightarrow> dget (step_confidence_type fs d) k x = dget d k x"
  by (simp add: step_confidence_type_def dget_py_set)

lemma is_number_step_confidence_type:
  "is_number (dget (step_confidence_type fs d) ''confidence'' PNone)"
  by (simp add: step_confidence_type_def dget_py_set)

lemma step_clamp_Inr:
  assumes "step_clamp fs d = Inr d'"
  shows "\<exists>c. py_float fs (dget d ''confidence'' PNone) = Inr c
             \<and> d' = py_set ''confidence'' (PFloat (clamp_round c)) d"
  using assms by (auto simp: step_clamp_def split: sum.splits)

lemma conf_of_py_set_confidence: "conf_of (py_set ''confidence'' (PFloat c) d) = c"
  by (simp add: conf_of_def dget_py_set)

lemma conf_of_py_set_other: "k \<noteq> ''confidence'' \<Longrightarrow> conf_of (py_set k v d) = conf_of d"
  by (simp add: conf_of_def dget_py_set)

lemma dget_step_override:
  "dget (step_override d) k x =
     (if dget d ''mnpi'' PNone = PStr ''yes'' \<and> conf_of d < 5 / 10
      then (if k = ''recommended_action'' then PStr ''human_review''
            else if k = ''mnpi'' then PStr ''unclear'' else dget d k x)
      else dget d k x)"
  by (simp add: step_override_def dget_py_set)

lemma conf_of_step_override: "conf_of (step_override d) = conf_of d"
  by (simp add: conf_of_def dget_step_override)

lemma filter_allowed_Inr:
  "filter_allowed cs = Inr r \<Longrightarrow> r = filter (\<lambda>c. c \<in> PStr ` set allowed) cs"
  by (induction cs arbitrary: r) (auto split: if_splits sum.splits)

lemma filter_allowed_hashable:
  "list_all hashable cs \<Longrightarrow> filter_allowed cs = Inr (filter (\<lambda>c. c \<in> PStr ` set allowed) cs)"
  by (induction cs) auto

lemma step_categories_filter_Inr:
  assumes "step_categories_filter d = Inr d'"
  shows "\<exists>cs. cs \<noteq> [] \<and> set cs \<subseteq> PStr ` set allowed
             \<and> d' = py_set ''categories'' (PList cs) d"
proof -
  obtain r where r: "filter_allowed (case dget d ''categories'' PNone of PList cs \<Rightarrow> cs | _ \<Rightarrow> []) = Inr r"
    and d': "d' = py_set ''categories'' (PList (if r = [] then [PStr ''None''] else r)) d"
    using assms by (auto simp: step_categories_filter_def split: sum.splits)
  have "set r \<subseteq> PStr ` set allowed" using filter_allowed_Inr[OF r] by auto
  moreover have "PStr ''None'' \<in> PStr ` set allowed" by (simp add: allowed_def)
  ultimately have "set (if r = [] then [PStr ''None''] else r) \<subseteq> PStr ` set allowed" by auto
  moreover have "(if r = [] then [PStr ''None''] else r) \<noteq> []" by simp
  ultimately show ?thesis using d' by blast
qed

lemma dget_step_risk_level:
  "dget (step_risk_level d) k x =
     (if k = ''risk_level'' \<and> dget d ''risk_level'' PNone \<notin> {PStr ''low'', PStr ''medium'', PStr ''high''}
      then PStr (if 75 / 100 \<le> conf_of d then ''high''
                 else if 5 / 10 \<le> conf_of d then ''medium'' else ''low'')
      else dget d k x)"
  by (simp add: step_risk_level_def dget_py_set)

lemma dget_step_recommended_action:
  "dget (step_recommended_action d) k x =
     (if k = ''recommended_action''
         \<and> dget d ''recommended_action'' PNone
              \<notin> {PStr ''escalate'', PStr ''human_review'', PStr ''no_action''}
      then PStr (if dget d ''risk_level'' PNone = PStr ''high'' then ''escalate''
                 else if dget d ''mnpi'' PNone = PStr ''unclear''
                         \<or> dget d ''risk_level'' PNone = PStr ''medium''
                      then ''human_review'' else ''no_action'')
      else dget d k x)"
  by (simp add: step_recommended_action_def dget_py_set)

lemma conf_of_step_risk_level: "conf_of (step_risk_level d) = conf_of d"
  by (simp add: conf_of_def dget_step_risk_level)

lemma conf_of_step_recommended_action: "conf_of (step_recommended_action d) = conf_of d"
  by (simp add: conf_of_def dget_step_recommended_action)

text \<open>The stages of a successful validation.\<close>

lemma normalize_fields_Inr:
  assumes "normalize_fields fs data = Inr out"
  shows "\<exists>c cs d1 d2.
           d1 = step_confidence_type fs (step_categories_type (step_mnpi data))
         \<and> py_float fs (dget d1 ''confidence'' PNone) = Inr c
         \<and> d2 = step_override (py_set ''confidence'' (PFloat (clamp_round c)) d1)
         \<and> cs \<noteq> [] \<and> set cs \<subseteq> PStr ` set allowed
         \<and> out = step_recommended_action (step_risk_level (py_set ''categories'' (PList cs) d2))"
proof -
  let ?d1 = "step_confidence_type fs (step_categories_type (step_mnpi data))"
  obtain d where d: "step_clamp fs ?d1 = Inr d"
    and rest: "(case step_categories_filter (step_override d) of
             Inl e \<Rightarrow> Inl e
           | Inr d' \<Rightarrow> Inr (step_recommended_action (step_risk_level d'))) = Inr out"
    using assms by (auto simp: normalize_fields_def split: sum.splits)
  obtain d' where d': "step_categories_filter (step_override d) = Inr d'"
    and out: "out = step_recommended_action (step_risk_level d')"
    using rest by (auto split: sum.splits)
  from step_clamp_Inr[OF d] obtain c where c: "py_float fs (dget ?d1 ''confidence'' PNone) = Inr c"
    "d = py_set ''confidence'' (PFloat (clamp_round c)) ?d1" by blast
  from step_categories_filter_Inr[OF d'] obtain cs where cs: "cs \<noteq> []" "set cs \<subseteq> PStr ` set allowed"
    "d' = py_set ''categories'' (PList cs) (step_override d)" by blast
  show ?thesis using c cs out by blast
qed

lemma normalized_confidence:
  assumes "normalize_fields fs data = Inr out"
  shows "\<exists>k. dget out ''confidence'' x = PFloat (of_int k / 100) \<and> conf_of out = of_int k / 100
            \<and> 0 \<le> k \<and> k \<le> 95"
proof -
  from normalize_fields_Inr[OF assms] obtain c cs d1 d2 where
    d2: "d2 = step_override (py_set ''confidence'' (PFloat (clamp_round c)) d1)"
    and out: "out = step_recommended_action (step_risk_level (py_set ''categories'' (PList cs) d2))"
    by blast
  have "dget out ''confidence'' x = PFloat (clamp_round c)" for x
    unfolding out d2
    by (simp add: dget_step_recommended_action dget_step_risk_level dget_py_set dget_step_override)
  moreover from this have "conf_of out = clamp_round c" by (simp add: conf_of_def)
  moreover obtain k where "clamp_round c = of_int k / 100" "0 \<le> k" "k \<le> 95"
    using clamp_round_hundredth by blast
  ultimately show ?thesis by auto
qed

lemma normalized_mnpi:
  assumes "normalize_fields fs data = Inr out"
  shows "dget out ''mnpi'' x \<in> {PStr ''yes'', PStr ''no'', PStr ''unclear''}
         \<and> (dget out ''mnpi'' x = PStr ''yes'' \<longrightarrow> 5 / 10 \<le> conf_of out)
         \<and> (dget out ''mnpi'' x = PStr ''yes'' \<longrightarrow> dget data ''mnpi'' PNone = PStr ''yes'')
         \<and> (dget out ''mnpi'' x = PStr ''no'' \<longleftrightarrow> dget data ''mnpi'' PNone = PStr ''no'')"
proof -
  from normalize_fields_Inr[OF assms] obtain c cs d1 d2 where
    d1: "d1 = step_confidence_type fs (step_categories_type (step_mnpi data))"
    and d2: "d2 = step_override (py_set ''confidence'' (PFloat (clamp_round c)) d1)"
    and out: "out = step_recommended_action (step_risk_level (py_set ''categories'' (PList cs) d2))"
    by blast
  have m1: "dget d1 ''mnpi'' y = (if dget data ''mnpi'' PNone \<notin> {PStr ''yes'', PStr ''no'', PStr ''unclear''}
      then PStr ''unclear'' else dget data ''mnpi'' y)" for y
    unfolding d1 by (simp add: dget_step_confidence_type dget_step_categories_type dget_step_mnpi)
  have c: "conf_of out = clamp_round c"
    unfolding out d2
    by (simp add: conf_of_step_recommended_action conf_of_step_risk_level conf_of_py_set_other
        conf_of_step_override conf_of_py_set_confidence)
  have m: "dget out ''mnpi'' x =
      (if dget d1 ''mnpi'' PNone = PStr ''yes'' \<and> clamp_round c < 5 / 10 then PStr ''unclear''
       else dget d1 ''mnpi'' x)"
    unfolding out d2
    by (simp add: dget_step_recommended_action dget_step_risk_level dget_py_set dget_step_override
        conf_of_py_set_confidence)
  have v: "dget data ''mnpi'' PNone \<in> {PStr ''yes'', PStr ''no'', PStr ''unclear''}
      \<Longrightarrow> dget data ''mnpi'' x = dget data ''mnpi'' PNone"
    by (auto simp: dget_def split: option.splits)
  show ?thesis
    unfolding m c m1 using v by (auto split: if_splits)
qed

lemma normalized_categories:
  assumes "normalize_fields fs data = Inr out"
  shows "\<exists>cs. dget out ''categories'' x = PList cs \<and> cs \<noteq> [] \<and> set cs \<subseteq> PStr ` set allowed"
proof -
  from normalize_fields_Inr[OF assms] obtain c cs d1 d2 where
    cs: "cs \<noteq> []" "set cs \<subseteq> PStr ` set allowed"
    and out: "out = step_recommended_action (step_risk_level (py_set ''categories'' (PList cs) d2))"
    by blast
  have "dget out ''categories'' x = PList cs"
    unfolding out by (simp add: dget_step_recommended_action dget_step_risk_level dget_py_set)
  then show ?thesis using cs by blast
qed

lemma normalized_risk_level:
  "dget (step_recommended_action (step_risk_level d)) ''risk_level'' x
     \<in> {PStr ''low'', PStr ''medium'', PStr ''high''}"
proof -
  have v: "dget d ''risk_level'' PNone \<in> {PStr ''low'', PStr ''medium'', PStr ''high''}
      \<Longrightarrow> dget d ''risk_level'' x = dget d ''risk_level'' PNone"
    by (auto simp: dget_def split: option.splits)
  show ?thesis
    using v by (auto simp: dget_step_recommended_action dget_step_risk_level)
qed

lemma normalized_recommended_action:
  "dget (step_recommended_action d) ''recommended_action'' x
     \<in> {PStr ''escalate'', PStr ''human_review'', PStr ''no_action''}"
proof -
  have v: "dget d ''recommended_action'' PNone \<in> {PStr ''escalate'', PStr ''human_review'', PStr ''no_action''}
      \<Longrightarrow> dget d ''recommended_action'' x = dget d ''recommended_action'' PNone"
    by (auto simp: dget_def split: option.splits)
  show ?thesis
    using v by (auto simp: dget_step_recommended_action)
qed

lemma normalize_fields_validated:
  assumes "normalize_fields fs data = Inr out"
  shows "validated_fields out"
proof -
  from normalize_fields_Inr[OF assms] obtain c cs d1 d2 where
    out: "out = step_recommended_action (step_risk_level (py_set ''categories'' (PList cs) d2))"
    by blast
  obtain k where k: "dget out ''confidence'' PNone = PFloat (of_int k / 100)" "0 \<le> k" "k \<le> 95"
    using normalized_confidence[OF assms] by blast
  obtain cs' where cs': "dget out ''categories'' PNone = PList cs'" "cs' \<noteq> []"
      "set cs' \<subseteq> PStr ` set allowed"
    using normalized_categories[OF assms] by blast
  have a: "dget out ''mnpi'' PNone \<in> {PStr ''yes'', PStr ''no'', PStr ''unclear''}"
    using normalized_mnpi[OF assms] by blast
  have b: "list_all (\<lambda>c. c \<in> PStr ` set allowed) cs'"
    using cs'(3) by (auto simp: list_all_iff)
  have c: "0 \<le> (of_int k / 100 :: rat) \<and> (of_int k / 100 :: rat) \<le> 95 / 100"
    using k(2,3) by simp
  have d: "dget out ''risk_level'' PNone \<in> {PStr ''low'', PStr ''medium'', PStr ''high''}"
    unfolding out by (rule normalized_risk_level)
  have e: "dget out ''recommended_action'' PNone
      \<in> {PStr ''escalate'', PStr ''human_review'', PStr ''no_action''}"
    unfolding out by (rule normalized_recommended_action)
  show ?thesis
    unfolding validated_fields_def using a b c d e cs'(1,2) k(1)
    by (simp add: py_round2_of_int)
qed

lemma validated_unclear_record: "validated_fields (unclear_record ev nt)"
  by (simp add: validated_fields_def unclear_record_def dget_def allowed_def py_round2_def)

lemma safe_parse_cases:
  assumes "safe_parse_model_output jl fs t = Inr p"
  shows "p = no_json_record \<or> p = malformed_record \<or> (\<exists>data. normalize_fields fs data = Inr p)"
  using assms
  by (auto simp: safe_parse_model_output_def split: option.splits pyval.splits)


lemma safe_parse_validated:
  assumes "safe_parse_model_output jl fs t = Inr p"
  shows "validated_fields p"
  using safe_parse_cases[OF assms]
  by (auto simp: no_json_record_def malformed_record_def validated_unclear_record
      normalize_fields_validated)



subsection \<open>The low-confidence override\<close>

text \<open>
  Claim C4. When the decoded record says \<^verbatim>\<open>mnpi = "yes"\<close> and the clamped confidence of
  the validated record is below 0.5, the validated record has \<^verbatim>\<open>mnpi = "unclear"\<close> and
  \<^verbatim>\<open>recommended_action = "human_review"\<close>. The record merged from the first pass and the
  verifier pass gets the same override: a merged verdict that would be yes (first pass
  yes, verifier neither unclear nor no) with a merged confidence below 0.5 becomes
  unclear with action human_review, so no merged record says yes below 0.5.
  (The validation has no result where it raises: an unhashable category, or an integer
  confidence too large for \<^verbatim>\<open>float\<close>.)
\<close>

theorem low_confidence_yes_override:
  "(normalize_fields fs data = Inr out \<and> dget data ''mnpi'' PNone = PStr ''yes''
      \<and> conf_of out < 5 / 10
      \<longrightarrow> dget out ''mnpi'' PNone = PStr ''unclear''
          \<and> dget out ''recommended_action'' PNone = PStr ''human_review'')
   \<and> (dget parsed ''mnpi'' PNone = PStr ''yes''
      \<and> dget verifier_parsed ''mnpi'' PNone \<noteq> PStr ''unclear''
      \<and> dget verifier_parsed ''mnpi'' PNone \<noteq> PStr ''no''
      \<and> conf_of (verifier_merge parsed verifier_parsed) < 5 / 10
      \<longrightarrow> dget (verifier_merge parsed verifier_parsed) ''mnpi'' PNone = PStr ''unclear''
          \<and> dget (verifier_merge parsed verifier_parsed) ''recommended_action'' PNone
              = PStr ''human_review'')
   \<and> (dget (verifier_merge parsed verifier_parsed) ''mnpi'' PNone = PStr ''yes''
      \<longrightarrow> 5 / 10 \<le> conf_of (verifier_merge parsed verifier_parsed))"
proof (intro conjI impI)
  assume a: "normalize_fields fs data = Inr out \<and> dget data ''mnpi'' PNone = PStr ''yes''
      \<and> conf_of out < 5 / 10"
  from normalize_fields_Inr[of fs data out] a obtain c cs d1 d2 where
    d1: "d1 = step_confidence_type fs (step_categories_type (step_mnpi data))"
    and d2: "d2 = step_override (py_set ''confidence'' (PFloat (clamp_round c)) d1)"
    and out: "out = step_recommended_action (step_risk_level (py_set ''categories'' (PList cs) d2))"
    by blast
  have m1: "dget d1 ''mnpi'' PNone = PStr ''yes''"
    unfolding d1 using a
    by (simp add: dget_step_confidence_type dget_step_categories_type dget_step_mnpi)
  have c: "conf_of out = clamp_round c"
    unfolding out d2
    by (simp add: conf_of_step_recommended_action conf_of_step_risk_level conf_of_py_set_other
        conf_of_step_override conf_of_py_set_confidence)
  then have lt: "clamp_round c < 5 / 10" using a by simp
  show "dget out ''mnpi'' PNone = PStr ''unclear''"
    unfolding out d2 using m1 lt
    by (simp add: dget_step_recommended_action dget_step_risk_level dget_py_set dget_step_override
        conf_of_py_set_confidence)
  show "dget out ''recommended_action'' PNone = PStr ''human_review''"
    unfolding out d2 using m1 lt
    by (simp add: dget_step_recommended_action dget_step_risk_level dget_py_set dget_step_override
        conf_of_py_set_confidence)
next
  assume "dget parsed ''mnpi'' PNone = PStr ''yes''
      \<and> dget verifier_parsed ''mnpi'' PNone \<noteq> PStr ''unclear''
      \<and> dget verifier_parsed ''mnpi'' PNone \<noteq> PStr ''no''
      \<and> conf_of (verifier_merge parsed verifier_parsed) < 5 / 10"
  then show "dget (verifier_merge parsed verifier_parsed) ''mnpi'' PNone = PStr ''unclear''"
    and "dget (verifier_merge parsed verifier_parsed) ''recommended_action'' PNone
              = PStr ''human_review''"
    by (auto simp: verifier_merge_def Let_def dget_py_set conf_of_def dget_def[of "_ # _"]
        split: if_splits)
next
  assume "dget (verifier_merge parsed verifier_parsed) ''mnpi'' PNone = PStr ''yes''"
  then show "5 / 10 \<le> conf_of (verifier_merge parsed verifier_parsed)"
    by (auto simp: verifier_merge_def Let_def dget_py_set conf_of_def dget_def[of "_ # _"]
        split: if_splits)
qed

theorem low_confidence_yes_override_witness:
  "normalize_fields (\<lambda>t. None) [(''mnpi'', PStr ''yes''), (''confidence'', PFloat (3 / 10))]
     = Inr [(''mnpi'', PStr ''unclear''), (''confidence'', PFloat (3 / 10)),
            (''categories'', PList [PStr ''None'']),
            (''recommended_action'', PStr ''human_review''),
            (''risk_level'', PStr ''low'')]
   \<and> dget [(''mnpi'', PStr ''unclear''), (''confidence'', PFloat (3 / 10)),
            (''categories'', PList [PStr ''None'']),
            (''recommended_action'', PStr ''human_review''),
            (''risk_level'', PStr ''low'')] ''recommended_action'' PNone = PStr ''human_review''
   \<and> dget (verifier_merge [(''mnpi'', PStr ''yes''), (''confidence'', PFloat (6 / 10))]
                           [(''mnpi'', PStr ''yes''), (''confidence'', PFloat (45 / 100))])
          ''mnpi'' PNone = PStr ''unclear''
   \<and> 5 / 10 \<le> conf_of (verifier_merge [(''mnpi'', PStr ''yes''), (''confidence'', PFloat (6 / 10))]
                                      [(''mnpi'', PStr ''yes''), (''confidence'', PFloat (7 / 10))])"
proof -
  let ?d = "[(''mnpi'', PStr ''yes''), (''confidence'', PFloat (3 / 10))]"
  let ?o = "[(''mnpi'', PStr ''unclear''), (''confidence'', PFloat (3 / 10)),
            (''categories'', PList [PStr ''None'']),
            (''recommended_action'', PStr ''human_review''),
            (''risk_level'', PStr ''low'')]"
  let ?p = "[(''mnpi'', PStr ''yes''), (''confidence'', PFloat (6 / 10))]"
  let ?v1 = "[(''mnpi'', PStr ''yes''), (''confidence'', PFloat (45 / 100))]"
  let ?v2 = "[(''mnpi'', PStr ''yes''), (''confidence'', PFloat (7 / 10))]"
  have a: "normalize_fields (\<lambda>t. None) ?d = Inr ?o" by code_simp
  have b: "dget ?d ''mnpi'' PNone = PStr ''yes''" by code_simp
  have c: "conf_of ?o < 5 / 10" by code_simp
  have d: "dget ?p ''mnpi'' PNone = PStr ''yes''
      \<and> dget ?v1 ''mnpi'' PNone \<noteq> PStr ''unclear''
      \<and> dget ?v1 ''mnpi'' PNone \<noteq> PStr ''no''
      \<and> conf_of (verifier_merge ?p ?v1) < 5 / 10" by code_simp
  have e: "dget (verifier_merge ?p ?v2) ''mnpi'' PNone = PStr ''yes''" by code_simp
  note t1 = low_confidence_yes_override [of "\<lambda>t. None" ?d ?o, THEN conjunct1, rule_format,
      OF conjI [OF a conjI [OF b c]]]
  note t2 = low_confidence_yes_override [of _ _ _ ?p ?v1, THEN conjunct2, THEN conjunct1, rule_format,
      OF d]
  note t3 = low_confidence_yes_override [of _ _ _ ?p ?v2, THEN conjunct2, THEN conjunct2, rule_format,
      OF e]
  show ?thesis using a t1 t2 t3 by blast
qed


subsection \<open>The attempt loop and the verifier merge\<close>



lemma attempt_loop_all_raise:
  assumes "\<forall>k. llm k (ClassifyPrompt chunk) = Raises (msg k)"
  shows "a \<le> m \<Longrightarrow>
     attempt_loop jl fs llm chunk m prev n [a..m]
       = (Returned (llm_error_record (InvokeError (msg (n + nat (m - a))))),
          Suc (n + nat (m - a)))"
proof (induction a m arbitrary: prev n rule: upto.induct)
  case (1 i j)
  have u: "[i..j] = i # [i + 1..j]" using "1.prems" by (rule upto_rec1)
  have ip: "invoke_and_parse jl fs llm k (ClassifyPrompt chunk) = Inl (InvokeError (msg k))" for k
    using assms by (simp add: invoke_and_parse_def)
  show ?case
  proof (cases "i < j")
    case True
    then have le: "i + 1 \<le> j" by simp
    have n: "nat (j - i) = Suc (nat (j - (i + 1)))" using True by linarith
    show ?thesis
      unfolding u n using True "1.IH"[OF "1.prems" le, of "''ERROR: '' @ msg n" "Suc n"]
      by (simp add: ip)
  next
    case False
    then have "i = j" using "1.prems" by simp
    then show ?thesis unfolding u by (simp add: ip)
  qed
qed

lemma dget_Cons: "dget ((k', v) # d) k x = (if k = k' then v else dget d k x)"
  by (simp add: dget_def)

lemma dget_Nil: "dget [] k x = x"
  by (simp add: dget_def)

lemmas vm_simps = verifier_merge_def Let_def dget_py_set dget_Cons dget_Nil conf_of_def[of "_ # _"] py_or_def

lemma verifier_merge_confidence:
  "dget (verifier_merge p v) ''confidence'' x = PFloat (clamp_round (min (conf_of p) (conf_of v)))"
  by (simp add: vm_simps)

lemma conf_of_verifier_merge:
  "conf_of (verifier_merge p v) = clamp_round (min (conf_of p) (conf_of v))"
  by (simp add: conf_of_def verifier_merge_confidence)


















subsection \<open>The aggregator\<close>

lemma dicts_of_simps:
  "dicts_of [] = []"
  "dicts_of (PDict d # rs) = d # dicts_of rs"
  "\<not> is_dict v \<Longrightarrow> dicts_of (v # rs) = dicts_of rs"
  by (simp_all add: dicts_of_def)


lemma dicts_of_filter: "dicts_of (filter is_dict rs) = dicts_of rs"
  by (simp add: dicts_of_def)


lemma normalize_all_Inl:
  "normalize_all fs rs = Inl e \<Longrightarrow> \<exists>d\<in>set (dicts_of rs). entry_confidence fs d = Inl e"
proof (induction fs rs rule: normalize_all.induct)
  case (2 fs r rs)
  then show ?case
    by (auto simp: dicts_of_simps normalize_entry_def split: sum.splits)
qed (simp_all add: dicts_of_simps)























text \<open>A record with the five validated fields, as the classifier returns it, meets both
  conditions under which the aggregator is studied below: its confidence converts and
  its categories are strings.\<close>

lemma dget_present: "dget d k x = v \<Longrightarrow> v \<noteq> x \<Longrightarrow> dget d k y = v"
  by (auto simp: dget_def split: option.splits)

lemma validated_entry:
  assumes "validated_fields d"
  shows "(\<exists>c. entry_confidence fs d = Inr c) \<and> list_all is_str (entry_categories d)"
proof -
  obtain cs where cs: "dget d ''categories'' PNone = PList cs"
    "list_all (\<lambda>c. c \<in> PStr ` set allowed) cs"
    using assms by (auto simp: validated_fields_def split: pyval.splits)
  obtain c where c: "dget d ''confidence'' PNone = PFloat c"
    using assms by (auto simp: validated_fields_def split: pyval.splits)
  have "dget d ''confidence'' (PFloat 0) = PFloat c"
    using c by (rule dget_present) simp
  then have "entry_confidence fs d = Inr c" using c by (simp add: entry_confidence_def)
  moreover have "list_all is_str cs" using cs(2) by (auto simp: list_all_iff)
  then have "list_all is_str (entry_categories d)" using cs(1) by (simp add: entry_categories_def)
  ultimately show ?thesis by blast
qed

















subsection \<open>Where the code leaves the documented contract\<close>

text \<open>
  Claim C1 says that the normalizer always returns a record with all seven fields, each
  within its domain; the docstring of \<^verbatim>\<open>classify_chunk\<close> names the same seven keys. The
  validation sets five of them. \<^verbatim>\<open>evidence_summary\<close> and \<^verbatim>\<open>notes\<close> are never checked
  or filled in, so for the response \<^verbatim>\<open>{}\<close> the record has five keys; the analyzer's
  \<^verbatim>\<open>_normalize_classify_output\<close> returns a mapping as it is, the empty one included;
  and a category that is itself a list makes the membership test raise
  \<^verbatim>\<open>TypeError\<close> out of \<^verbatim>\<open>safe_parse_model_output\<close>.
\<close>

theorem normalizer_drops_fields:
  \<open>safe_parse_model_output example_loads fs ''{}''
     = Inr [(''mnpi'', PStr ''unclear''), (''categories'', PList [PStr ''None'']),
            (''confidence'', PFloat 0), (''risk_level'', PStr ''low''),
            (''recommended_action'', PStr ''human_review'')]
   \<and> map_of [(''mnpi'', PStr ''unclear''), (''categories'', PList [PStr ''None'']),
            (''confidence'', PFloat 0), (''risk_level'', PStr ''low''),
            (''recommended_action'', PStr ''human_review'')] ''evidence_summary'' = None
   \<and> map_of [(''mnpi'', PStr ''unclear''), (''categories'', PList [PStr ''None'']),
            (''confidence'', PFloat 0), (''risk_level'', PStr ''low''),
            (''recommended_action'', PStr ''human_review'')] ''notes'' = None
   \<and> normalize_classify_output jl (PDict []) = PDict []
   \<and> safe_parse_model_output example_loads fs ''{"categories": [["M&A/Transactions"]]}''
     = Inl (TypeError (''unhashable type: '' @ quoted ''list''))\<close>
  by code_simp


text \<open>
  Claim C3 says that \<^verbatim>\<open>classify_chunk\<close> never lets an exception reach its caller. The
  handler of a failed verifier pass (lines 207-211) concatenates the first pass's
  \<^verbatim>\<open>notes\<close> with a string. The normalizer never checks \<^verbatim>\<open>notes\<close>, so the model can put a
  number there: with a borderline first pass that carries \<^verbatim>\<open>"notes": 5\<close> and a verifier
  invocation that raises, the concatenation raises \<^verbatim>\<open>TypeError\<close> inside the handler
  and the exception leaves the function, after three invocations.
\<close>

theorem verifier_handler_raises:
  \<open>classify_chunk example_loads fs
      (\<lambda>n p. case p of
                ClassifyPrompt c \<Rightarrow> Returns ''{"mnpi": "yes", "confidence": 0.6, "notes": 5}''
              | VerifierPrompt c \<Rightarrow> Raises ''connection reset'')
      ''quarterly numbers'' 2
   = (Inl (TypeError (''unsupported operand type(s) for +: '' @ quoted ''int'' @ '' and ''
                      @ quoted ''str'')), 3)\<close>
  by code_simp

subsection \<open>What the classifier does guarantee\<close>

text \<open>
  The five validated fields. Whatever the response text, a record that
  \<^verbatim>\<open>safe_parse_model_output\<close> returns has a verdict among yes, no and unclear, a
  non-empty list of categories from the fixed vocabulary, a confidence between 0.0 and
  0.95 with two decimals, a risk level among low, medium and high, and an action among
  escalate, human_review and no_action.
\<close>

theorem validated_output:
  assumes "safe_parse_model_output jl fs t = Inr r"
  shows "dget r ''mnpi'' PNone \<in> {PStr ''yes'', PStr ''no'', PStr ''unclear''}
     \<and> (\<exists>cs. dget r ''categories'' PNone = PList cs \<and> cs \<noteq> []
              \<and> set cs \<subseteq> PStr ` set allowed)
     \<and> (\<exists>c. dget r ''confidence'' PNone = PFloat c \<and> 0 \<le> c \<and> c \<le> 95 / 100
             \<and> py_round2 c = c)
     \<and> dget r ''risk_level'' PNone \<in> {PStr ''low'', PStr ''medium'', PStr ''high''}
     \<and> dget r ''recommended_action'' PNone
           \<in> {PStr ''escalate'', PStr ''human_review'', PStr ''no_action''}"
proof -
  have v: "validated_fields r" using assms by (rule safe_parse_validated)
  obtain cs where cs: "dget r ''categories'' PNone = PList cs" "cs \<noteq> []"
    "list_all (\<lambda>c. c \<in> PStr ` set allowed) cs"
    using v by (auto simp: validated_fields_def split: pyval.splits)
  obtain c where c: "dget r ''confidence'' PNone = PFloat c" "0 \<le> c" "c \<le> 95 / 100" "py_round2 c = c"
    using v by (auto simp: validated_fields_def split: pyval.splits)
  have "set cs \<subseteq> PStr ` set allowed" using cs(3) by (auto simp: list_all_iff)
  then show ?thesis
    using v cs(1,2) c by (simp add: validated_fields_def)
qed

theorem validated_output_witness:
  \<open>safe_parse_model_output example_loads (\<lambda>t. None) ''{}''
     = Inr [(''mnpi'', PStr ''unclear''), (''categories'', PList [PStr ''None'']),
            (''confidence'', PFloat 0), (''risk_level'', PStr ''low''),
            (''recommended_action'', PStr ''human_review'')]
   \<and> dget [(''mnpi'', PStr ''unclear''), (''categories'', PList [PStr ''None'']),
         (''confidence'', PFloat 0), (''risk_level'', PStr ''low''),
         (''recommended_action'', PStr ''human_review'')] ''risk_level'' PNone
     \<in> {PStr ''low'', PStr ''medium'', PStr ''high''}\<close>
proof -
  have e: \<open>safe_parse_model_output example_loads (\<lambda>t. None) ''{}''
     = Inr [(''mnpi'', PStr ''unclear''), (''categories'', PList [PStr ''None'']),
            (''confidence'', PFloat 0), (''risk_level'', PStr ''low''),
            (''recommended_action'', PStr ''human_review'')]\<close>
    by code_simp
  from validated_output [OF e] e show ?thesis by blast
qed

text \<open>
  Exhausted retries. When every classification invocation raises and the budget is at
  least one attempt, \<^verbatim>\<open>classify_chunk\<close> invokes the model \<^verbatim>\<open>max_retries\<close> times and
  returns the terminal record: verdict unclear, action human_review, and the text of the
  last error in the notes.
\<close>

theorem retries_exhausted:
  assumes raises: "\<forall>k. llm k (ClassifyPrompt chunk) = Raises (msg k)"
    and budget: "1 \<le> max_retries"
  shows "classify_chunk jl fs llm chunk max_retries
     = (Inr [(''mnpi'', PStr ''unclear''), (''categories'', PList [PStr ''None'']),
             (''confidence'', PFloat 0), (''evidence_summary'', PStr ''LLM error''),
             (''risk_level'', PStr ''low''), (''recommended_action'', PStr ''human_review''),
             (''notes'', PStr (''LLM error after retries: '' @ msg (nat max_retries - 1)))],
        nat max_retries)"
proof -
  have n: "nat (max_retries - 1) = nat max_retries - 1"
    "Suc (nat max_retries - Suc 0) = nat max_retries"
    using budget by linarith+
  show ?thesis
    unfolding classify_chunk_def
      attempt_loop_all_raise[where llm = llm and msg = msg and chunk = chunk, OF raises budget]
    by (simp add: llm_error_record_def unclear_record_def n)
qed

theorem retries_exhausted_witness:
  "classify_chunk (\<lambda>t. None) (\<lambda>t. None) (\<lambda>n p. Raises (''timeout '' @ str_of_nat n)) ''chunk'' 2
     = (Inr [(''mnpi'', PStr ''unclear''), (''categories'', PList [PStr ''None'']),
             (''confidence'', PFloat 0), (''evidence_summary'', PStr ''LLM error''),
             (''risk_level'', PStr ''low''), (''recommended_action'', PStr ''human_review''),
             (''notes'', PStr ''LLM error after retries: timeout 1'')], 2)"
proof -
  have r: "\<forall>k. (\<lambda>n (p::prompt). Raises (''timeout '' @ str_of_nat n)) k (ClassifyPrompt ''chunk'')
      = Raises ((\<lambda>n. ''timeout '' @ str_of_nat n) k)" by simp
  have b: "(1::int) \<le> 2" by simp
  have s: "str_of_nat (nat 2 - 1) = ''1''" by code_simp
  from retries_exhausted [OF r b, of "\<lambda>t. None" "\<lambda>t. None"]
  show ?thesis by (simp only: s) simp
qed


text \<open>
  Early accept. When the first invocation returns a response whose record has a
  confidence of at least 0.75 or the verdict no, that record is returned after this one
  invocation: no retry, no verifier pass.
\<close>

theorem early_accept:
  assumes reply: "llm 0 (ClassifyPrompt chunk) = Returns t"
    and parsed: "safe_parse_model_output jl fs t = Inr p"
    and accept: "75 / 100 \<le> conf_of p \<or> dget p ''mnpi'' PNone = PStr ''no''"
    and budget: "1 \<le> max_retries"
  shows "classify_chunk jl fs llm chunk max_retries = (Inr p, 1)"
proof -
  have u: "[1..max_retries] = 1 # [1 + 1..max_retries]" using budget by (rule upto_rec1)
  have ip: "invoke_and_parse jl fs llm 0 (ClassifyPrompt chunk) = Inr (t, p)"
    using reply parsed by (simp add: invoke_and_parse_def)
  have "attempt_loop jl fs llm chunk max_retries [] 0 [1..max_retries] = (Returned p, 1)"
    unfolding u using accept by (simp add: ip)
  then show ?thesis by (simp add: classify_chunk_def)
qed

theorem early_accept_witness:
  \<open>classify_chunk
      (\<lambda>t. if t = ''{"mnpi": "no"}'' then Some (PDict [(''mnpi'', PStr ''no'')]) else None)
      (\<lambda>t. None) (\<lambda>n p. Returns ''{"mnpi": "no"}'') ''chunk'' 2
     = (Inr [(''mnpi'', PStr ''no''), (''categories'', PList [PStr ''None'']),
             (''confidence'', PFloat 0), (''risk_level'', PStr ''low''),
             (''recommended_action'', PStr ''no_action'')], 1)\<close>
proof -
  let ?jl = \<open>\<lambda>t. if t = ''{"mnpi": "no"}'' then Some (PDict [(''mnpi'', PStr ''no'')]) else None\<close>
  let ?llm = \<open>\<lambda>(n::nat) (p::prompt). Returns ''{"mnpi": "no"}''\<close>
  let ?p = "[(''mnpi'', PStr ''no''), (''categories'', PList [PStr ''None'']),
             (''confidence'', PFloat 0), (''risk_level'', PStr ''low''),
             (''recommended_action'', PStr ''no_action'')]"
  have reply: \<open>?llm 0 (ClassifyPrompt ''chunk'') = Returns ''{"mnpi": "no"}''\<close> by simp
  have parsed: \<open>safe_parse_model_output ?jl (\<lambda>t. None) ''{"mnpi": "no"}'' = Inr ?p\<close>
    by code_simp
  have accept: "75 / 100 \<le> conf_of ?p \<or> dget ?p ''mnpi'' PNone = PStr ''no''"
    by code_simp
  have budget: "(1::int) \<le> 2" by simp
  from early_accept [OF reply parsed accept budget] show ?thesis .
qed


end
